theory Spec2Isabelle
  imports Main "HOL-Library.Word"
begin

section \<open>Values of the host language\<close>

text \<open>
  A JavaScript string is a sequence of UTF-16 code units: \<open>===\<close> compares the two
  sequences and \<open>.length\<close> counts code units.  The string literals of the source are
  ASCII; \<open>js\<close> turns such a literal into its code units.
\<close>

type_synonym jsstring = "16 word list"

definition js :: "string \<Rightarrow> jsstring" where
  "js s = map (\<lambda>c. of_nat (of_char c)) s"

text \<open>
  A \<open>Date\<close> is its time value, the milliseconds since the epoch.  \<open>new Date()\<close> reads
  the host's clock; the handlers take that reading as the argument \<open>now\<close>.
\<close>

type_synonym Date = int

text \<open>
  The payload a procedure receives before validation is an arbitrary value.  An object is
  the list of its own properties; reading a property that is absent gives \<open>undefined\<close>.
  The numbers of this development are the integers: ids are the only numbers the
  handlers produce or compare.
\<close>

datatype jsvalue =
    VUndefined
  | VNull
  | VBoolean bool
  | VNumber int
  | VString jsstring
  | VArray "jsvalue list"
  | VObject "(jsstring \<times> jsvalue) list"

definition get :: "(jsstring \<times> jsvalue) list \<Rightarrow> jsstring \<Rightarrow> jsvalue" where
  "get props key = (case map_of props key of None \<Rightarrow> VUndefined | Some v \<Rightarrow> v)"

subsection \<open>The draw of \<open>Math.random()\<close> and the arithmetic on it\<close>

text \<open>
  A non-negative finite double is \<open>significand * 2 ^ exponent\<close> with a significand below
  \<open>2 ^ 53\<close> and an exponent of at least \<open>-1074\<close>.  \<open>Math.random()\<close> returns a double
  that is at least 0 and less than 1: the doubles \<open>in_unit_interval\<close> describes.
\<close>

record double =
  significand :: nat
  exponent :: int

definition in_unit_interval :: "double \<Rightarrow> bool" where
  "in_unit_interval d \<longleftrightarrow>
     significand d < 2 ^ 53 \<and> - 1074 \<le> exponent d \<and> exponent d \<le> - 53"

fun bit_length :: "nat \<Rightarrow> nat" where
  "bit_length n = (if n = 0 then 0 else Suc (bit_length (n div 2)))"

declare bit_length.simps [simp del]

text \<open>\<open>p / 2 ^ s\<close> rounded to the nearest integer, a tie going to the even one.\<close>

definition round_half_even :: "nat \<Rightarrow> nat \<Rightarrow> nat" where
  "round_half_even p s =
     (let q = p div 2 ^ s; r = p mod 2 ^ s in
      if 2 * r < 2 ^ s then q
      else if 2 ^ s < 2 * r then q + 1
      else if even q then q else q + 1)"

text \<open>
  The product \<open>d * k\<close> of a double and an integer literal: the exact product, rounded to
  53 significant bits (round to nearest, ties to even).  The exponent only grows, so the
  result never falls below the smallest exponent; the products of this development are
  far from overflow.
\<close>

definition times_double :: "double \<Rightarrow> nat \<Rightarrow> double" where
  "times_double d k =
     (let p = significand d * k; s = bit_length p - 53 in
      \<lparr>significand = round_half_even p s, exponent = exponent d + int s\<rparr>)"

definition Math_floor :: "double \<Rightarrow> int" where
  "Math_floor d =
     (if 0 \<le> exponent d then int (significand d) * 2 ^ nat (exponent d)
      else int (significand d div 2 ^ nat (- exponent d)))"

section \<open>The schema\<close>

record User =
  id :: int
  username :: jsstring
  password_hash :: jsstring
  created_at :: Date

record LoginInput =
  username :: jsstring
  password :: jsstring

text \<open>The object under \<open>user\<close> in a login response.\<close>

record LoginResponse_user =
  id :: int
  username :: jsstring

text \<open>\<open>user\<close> is optional: \<open>None\<close> is a response without the field.\<close>

record LoginResponse =
  success :: bool
  message :: jsstring
  user :: "LoginResponse_user option"

record CreateUserInput =
  username :: jsstring
  password :: jsstring

subsection \<open>Validation\<close>

text \<open>
  A failed validation lists its issues: the path of the offending value and, for a
  length check, the message the schema gives.
\<close>

datatype issue =
    invalid_type "jsstring list"
  | too_small "jsstring list" jsstring

type_synonym 'a parser = "jsstring list \<Rightarrow> jsvalue \<Rightarrow> issue list + 'a"

text \<open>\<open>z.string().min(n, msg)\<close>: a string of at least \<open>n\<close> code units.\<close>

definition z_string_min :: "nat \<Rightarrow> jsstring \<Rightarrow> jsstring parser" where
  "z_string_min n msg path v =
     (case v of
        VString s \<Rightarrow> if length s < n then Inl [too_small path msg] else Inr s
      | _ \<Rightarrow> Inl [invalid_type path])"

text \<open>\<open>z.number()\<close>.\<close>

definition z_number :: "int parser" where
  "z_number path v = (case v of VNumber n \<Rightarrow> Inr n | _ \<Rightarrow> Inl [invalid_type path])"

definition issues :: "issue list + 'a \<Rightarrow> issue list" where
  "issues r = (case r of Inl errs \<Rightarrow> errs | Inr _ \<Rightarrow> [])"

text \<open>
  \<open>z.object({k: schema})\<close> and \<open>z.object({k1: schema1, k2: schema2})\<close>: the value must
  be an object; every field of the shape is read and validated, the issues of all fields
  are collected, and the result holds the fields of the shape only.
\<close>

definition z_object1 ::
  "jsstring \<Rightarrow> 'a parser \<Rightarrow> ('a \<Rightarrow> 'c) \<Rightarrow> jsvalue \<Rightarrow> issue list + 'c" where
  "z_object1 k schema build v =
     (case v of
        VObject props \<Rightarrow>
          (case schema [k] (get props k) of
             Inr a \<Rightarrow> Inr (build a)
           | Inl errs \<Rightarrow> Inl errs)
      | _ \<Rightarrow> Inl [invalid_type []])"

definition z_object2 ::
  "jsstring \<Rightarrow> 'a parser \<Rightarrow> jsstring \<Rightarrow> 'b parser \<Rightarrow> ('a \<Rightarrow> 'b \<Rightarrow> 'c) \<Rightarrow>
   jsvalue \<Rightarrow> issue list + 'c" where
  "z_object2 k1 schema1 k2 schema2 build v =
     (case v of
        VObject props \<Rightarrow>
          (case (schema1 [k1] (get props k1), schema2 [k2] (get props k2)) of
             (Inr a, Inr b) \<Rightarrow> Inr (build a b)
           | (r1, r2) \<Rightarrow> Inl (issues r1 @ issues r2))
      | _ \<Rightarrow> Inl [invalid_type []])"

definition loginInputSchema :: "jsvalue \<Rightarrow> issue list + LoginInput" where
  "loginInputSchema =
     z_object2
       (js ''username'') (z_string_min 1 (js ''Username is required''))
       (js ''password'') (z_string_min 1 (js ''Password is required''))
       (\<lambda>u p. \<lparr>LoginInput.username = u, password = p\<rparr>)"

definition createUserInputSchema :: "jsvalue \<Rightarrow> issue list + CreateUserInput" where
  "createUserInputSchema =
     z_object2
       (js ''username'') (z_string_min 1 (js ''Username is required''))
       (js ''password'') (z_string_min 6 (js ''Password must be at least 6 characters''))
       (\<lambda>u p. \<lparr>CreateUserInput.username = u, password = p\<rparr>)"

section \<open>The handlers\<close>

text \<open>
  Each handler is an \<open>async\<close> function without \<open>await\<close> or \<open>throw\<close>: its promise is
  fulfilled with the value the body returns, which is the value of the model.
\<close>

definition DEMO_USERNAME :: jsstring where
  "DEMO_USERNAME = js ''demo''"

definition DEMO_PASSWORD :: jsstring where
  "DEMO_PASSWORD = js ''demo123''"

definition login :: "LoginInput \<Rightarrow> LoginResponse" where
  "login input =
     (if LoginInput.username input = DEMO_USERNAME \<and> LoginInput.password input = DEMO_PASSWORD
      then \<lparr>success = True,
            message = js ''Login successful'',
            user = Some \<lparr>LoginResponse_user.id = 1, username = DEMO_USERNAME\<rparr>\<rparr>
      else \<lparr>success = False,
            message = js ''Invalid username or password'',
            user = None\<rparr>)"

text \<open>\<open>null\<close> is \<open>None\<close>.\<close>

definition getUser :: "Date \<Rightarrow> int \<Rightarrow> User option" where
  "getUser now userId =
     (if userId = 1
      then Some \<lparr>User.id = 1,
                 username = js ''demo'',
                 password_hash = js ''$2b$10$demo_hash'',
                 created_at = now\<rparr>
      else None)"

text \<open>\<open>random\<close> is the draw of \<open>Math.random()\<close>, \<open>now\<close> the clock's reading.\<close>

definition createUser :: "double \<Rightarrow> Date \<Rightarrow> CreateUserInput \<Rightarrow> User" where
  "createUser random now input =
     \<lparr>User.id = Math_floor (times_double random 1000),
      username = CreateUserInput.username input,
      password_hash = js ''$2b$10$placeholder_hash'',
      created_at = now\<rparr>"

section \<open>The router\<close>

text \<open>
  A procedure validates the payload with its input schema.  A payload that fails is
  answered with the error \<open>BAD_REQUEST\<close> carrying the issues, and the resolver is not
  called; otherwise the resolver is called with the validated input and its result is
  the answer.
\<close>

datatype TRPCError = BAD_REQUEST "issue list"

definition publicProcedure ::
  "(jsvalue \<Rightarrow> issue list + 'i) \<Rightarrow> ('i \<Rightarrow> 'o) \<Rightarrow> jsvalue \<Rightarrow> TRPCError + 'o" where
  "publicProcedure schema resolver raw =
     (case schema raw of
        Inl errs \<Rightarrow> Inl (BAD_REQUEST errs)
      | Inr input \<Rightarrow> Inr (resolver input))"

text \<open>
  The health check takes no input.  \<open>toISOString\<close>, the rendering of a date as text, is
  a built-in of the host and a parameter here.
\<close>

record Health =
  status :: jsstring
  timestamp :: jsstring

definition appRouter_healthcheck :: "(Date \<Rightarrow> jsstring) \<Rightarrow> Date \<Rightarrow> Health" where
  "appRouter_healthcheck toISOString now =
     \<lparr>status = js ''ok'', timestamp = toISOString now\<rparr>"

definition appRouter_login :: "jsvalue \<Rightarrow> TRPCError + LoginResponse" where
  "appRouter_login = publicProcedure loginInputSchema login"

text \<open>The input of \<open>getUser\<close> is validated by a schema written in place.\<close>

record GetUserInput =
  userId :: int

definition appRouter_getUser :: "Date \<Rightarrow> jsvalue \<Rightarrow> TRPCError + User option" where
  "appRouter_getUser now =
     publicProcedure
       (z_object1 (js ''userId'') z_number (\<lambda>n. \<lparr>userId = n\<rparr>))
       (\<lambda>input. getUser now (userId input))"

definition appRouter_createUser :: "double \<Rightarrow> Date \<Rightarrow> jsvalue \<Rightarrow> TRPCError + User" where
  "appRouter_createUser random now =
     publicProcedure createUserInputSchema (createUser random now)"

section \<open>Login\<close>

text \<open>
  Claim C1.  For every login input whose username is "demo" and whose password is
  "demo123", the login handler answers with \<open>success = true\<close> and a \<open>user\<close> field whose
  id is 1 and whose username is "demo".
\<close>

theorem login_demo_succeeds:
  assumes "LoginInput.username input = js ''demo''"
    and "LoginInput.password input = js ''demo123''"
  shows "success (login input) = True \<and>
         user (login input) = Some \<lparr>LoginResponse_user.id = 1, username = js ''demo''\<rparr>"
  using assms by (simp add: login_def DEMO_USERNAME_def DEMO_PASSWORD_def)

theorem login_demo_succeeds_witness:
  "success (login \<lparr>LoginInput.username = js ''demo'', password = js ''demo123''\<rparr>) = True \<and>
   user (login \<lparr>LoginInput.username = js ''demo'', password = js ''demo123''\<rparr>) =
     Some \<lparr>LoginResponse_user.id = 1, username = js ''demo''\<rparr>"
  by (rule login_demo_succeeds) simp_all

text \<open>
  Claim C2.  For every login input whose pair of username and password is not exactly
  ("demo", "demo123"), the login handler answers with \<open>success = false\<close> and without the
  \<open>user\<close> field.
\<close>

theorem login_other_fails:
  assumes "\<not> (LoginInput.username input = js ''demo'' \<and>
              LoginInput.password input = js ''demo123'')"
  shows "success (login input) = False \<and> user (login input) = None"
  using assms by (simp add: login_def DEMO_USERNAME_def DEMO_PASSWORD_def)

theorem login_other_fails_witness:
  "success (login \<lparr>LoginInput.username = js ''demo'', password = js ''demo124''\<rparr>) = False \<and>
   user (login \<lparr>LoginInput.username = js ''demo'', password = js ''demo124''\<rparr>) = None"
  by (rule login_other_fails) (simp add: js_def)

text \<open>
  Claim C4.  A failed login does not tell which credential was wrong: any two login
  inputs that both fail get the same response, with the same generic message.
\<close>

theorem login_failures_identical:
  assumes "\<not> (LoginInput.username a = js ''demo'' \<and> LoginInput.password a = js ''demo123'')"
    and "\<not> (LoginInput.username b = js ''demo'' \<and> LoginInput.password b = js ''demo123'')"
  shows "login a = login b \<and> message (login a) = js ''Invalid username or password''"
  using assms by (simp add: login_def DEMO_USERNAME_def DEMO_PASSWORD_def)

theorem login_failures_identical_witness:
  "login \<lparr>LoginInput.username = js ''demo'', password = js ''wrong''\<rparr> =
   login \<lparr>LoginInput.username = js ''nobody'', password = js ''demo123''\<rparr> \<and>
   message (login \<lparr>LoginInput.username = js ''demo'', password = js ''wrong''\<rparr>) =
     js ''Invalid username or password''"
  by (rule login_failures_identical) (simp_all add: js_def)

text \<open>
  Claim C8.  In every response of the login handler the \<open>user\<close> field is present if and
  only if \<open>success\<close> is true.
\<close>

theorem login_user_iff_success:
  "(user (login input) \<noteq> None) = success (login input)"
  by (simp add: login_def)

theorem login_user_iff_success_witness:
  "(user (login \<lparr>LoginInput.username = js ''demo'', password = js ''demo123''\<rparr>) \<noteq> None) =
     success (login \<lparr>LoginInput.username = js ''demo'', password = js ''demo123''\<rparr>) \<and>
   (user (login \<lparr>LoginInput.username = js ''demo'', password = []\<rparr>) \<noteq> None) =
     success (login \<lparr>LoginInput.username = js ''demo'', password = []\<rparr>)"
  by (intro conjI login_user_iff_success)

section \<open>Looking a user up\<close>

text \<open>
  Claim C5.  \<open>getUser\<close> applied to the id 1 returns a user whose id is 1 and whose
  username is "demo"; applied to any other integer it returns \<open>null\<close>, and that \<open>null\<close>
  is an ordinary result: the procedure answers with it and not with an error.
\<close>

theorem getUser_demo_or_null:
  "(\<exists>u. getUser now 1 = Some u \<and> User.id u = 1 \<and> User.username u = js ''demo'') \<and>
   (n \<noteq> 1 \<longrightarrow>
      getUser now n = None \<and>
      appRouter_getUser now (VObject [(js ''userId'', VNumber n)]) = Inr None)"
  by (simp add: getUser_def appRouter_getUser_def publicProcedure_def z_object1_def
      z_number_def get_def)

theorem getUser_demo_or_null_witness:
  "(\<exists>u. getUser 0 1 = Some u \<and> User.id u = 1 \<and> User.username u = js ''demo'') \<and>
   getUser 0 2 = None \<and>
   appRouter_getUser 0 (VObject [(js ''userId'', VNumber 2)]) = Inr None"
  using getUser_demo_or_null [of 0 2] by simp

section \<open>Validation before the handlers\<close>

text \<open>
  What each schema accepts, exactly: an object whose two fields are strings of the
  required lengths.  A procedure calls its resolver on the accepted payloads only.
\<close>

lemma z_string_min_accepts:
  "z_string_min n msg path v = Inr s \<longleftrightarrow> v = VString s \<and> n \<le> length s"
  by (auto simp: z_string_min_def split: jsvalue.splits if_splits)

lemma z_object2_accepts:
  "z_object2 k1 schema1 k2 schema2 build v = Inr c \<longleftrightarrow>
     (\<exists>props a b. v = VObject props \<and> schema1 [k1] (get props k1) = Inr a \<and>
        schema2 [k2] (get props k2) = Inr b \<and> c = build a b)"
  by (auto simp: z_object2_def split: jsvalue.splits sum.splits)

lemma loginInputSchema_accepts:
  "loginInputSchema raw = Inr input \<longleftrightarrow>
     (\<exists>props. raw = VObject props \<and>
        get props (js ''username'') = VString (LoginInput.username input) \<and>
        LoginInput.username input \<noteq> [] \<and>
        get props (js ''password'') = VString (LoginInput.password input) \<and>
        LoginInput.password input \<noteq> [])"
  by (cases input)
    (auto simp: loginInputSchema_def z_object2_accepts z_string_min_accepts Suc_le_eq)

lemma createUserInputSchema_accepts:
  "createUserInputSchema raw = Inr input \<longleftrightarrow>
     (\<exists>props. raw = VObject props \<and>
        get props (js ''username'') = VString (CreateUserInput.username input) \<and>
        CreateUserInput.username input \<noteq> [] \<and>
        get props (js ''password'') = VString (CreateUserInput.password input) \<and>
        6 \<le> length (CreateUserInput.password input))"
  by (cases input)
    (auto simp: createUserInputSchema_def z_object2_accepts z_string_min_accepts Suc_le_eq)

lemma publicProcedure_calls_resolver_iff:
  "publicProcedure schema resolver raw = Inr out \<longleftrightarrow>
     (\<exists>input. schema raw = Inr input \<and> out = resolver input)"
  by (auto simp: publicProcedure_def split: sum.splits)

text \<open>
  Claim C6.  Every payload of the \<open>createUser\<close> procedure whose password has fewer than
  6 code units is rejected by the schema: the procedure answers with the validation
  error whatever its resolver is, so the handler is not called.
\<close>

theorem createUser_short_password_rejected:
  assumes "get props (js ''password'') = VString p" and "length p < 6"
  shows "\<exists>errs.
           createUserInputSchema (VObject props) = Inl errs \<and>
           too_small [js ''password''] (js ''Password must be at least 6 characters'')
             \<in> set errs \<and>
           (\<forall>resolver :: CreateUserInput \<Rightarrow> 'o.
              publicProcedure createUserInputSchema resolver (VObject props) =
                Inl (BAD_REQUEST errs)) \<and>
           (\<forall>random now.
              appRouter_createUser random now (VObject props) = Inl (BAD_REQUEST errs))"
proof -
  have short:
    "z_string_min 6 (js ''Password must be at least 6 characters'') [js ''password'']
       (get props (js ''password'')) =
     Inl [too_small [js ''password''] (js ''Password must be at least 6 characters'')]"
    using assms by (simp add: z_string_min_def)
  show ?thesis
    unfolding createUserInputSchema_def appRouter_createUser_def publicProcedure_def
    by (simp add: z_object2_def short issues_def split: sum.splits)
qed

theorem createUser_short_password_rejected_witness:
  "\<exists>errs.
     createUserInputSchema
       (VObject [(js ''username'', VString (js ''bob'')),
                 (js ''password'', VString (js ''12345''))]) = Inl errs \<and>
     too_small [js ''password''] (js ''Password must be at least 6 characters'')
       \<in> set errs \<and>
     (\<forall>resolver :: CreateUserInput \<Rightarrow> bool.
        publicProcedure createUserInputSchema resolver
          (VObject [(js ''username'', VString (js ''bob'')),
                    (js ''password'', VString (js ''12345''))]) = Inl (BAD_REQUEST errs)) \<and>
     (\<forall>random now.
        appRouter_createUser random now
          (VObject [(js ''username'', VString (js ''bob'')),
                    (js ''password'', VString (js ''12345''))]) = Inl (BAD_REQUEST errs))"
  by (rule createUser_short_password_rejected [where p = "js ''12345''"])
    (simp_all add: get_def js_def)

text \<open>
  Claim C7.  Every payload of the \<open>login\<close> procedure whose username or password is the
  empty string is rejected by the schema, the procedure answering with the validation
  error whatever its resolver is; every payload whose two fields are non-empty strings
  passes, and the login handler is called with these two fields.
\<close>

theorem login_validation:
  "(get props (js ''username'') = VString [] \<or> get props (js ''password'') = VString [] \<longrightarrow>
      (\<exists>errs. errs \<noteq> [] \<and>
         loginInputSchema (VObject props) = Inl errs \<and>
         (\<forall>resolver :: LoginInput \<Rightarrow> 'o.
            publicProcedure loginInputSchema resolver (VObject props) =
              Inl (BAD_REQUEST errs)) \<and>
         appRouter_login (VObject props) = Inl (BAD_REQUEST errs))) \<and>
   (get props (js ''username'') = VString u \<and> u \<noteq> [] \<and>
    get props (js ''password'') = VString p \<and> p \<noteq> [] \<longrightarrow>
      loginInputSchema (VObject props) = Inr \<lparr>LoginInput.username = u, password = p\<rparr> \<and>
      appRouter_login (VObject props) =
        Inr (login \<lparr>LoginInput.username = u, password = p\<rparr>))"
  unfolding loginInputSchema_def appRouter_login_def publicProcedure_def z_object2_def
    z_string_min_def issues_def
  by (auto split: jsvalue.splits sum.splits)

theorem login_validation_witness:
  "(\<exists>errs. errs \<noteq> [] \<and>
      loginInputSchema
        (VObject [(js ''username'', VString []),
                  (js ''password'', VString (js ''demo123''))]) = Inl errs \<and>
      (\<forall>resolver :: LoginInput \<Rightarrow> bool.
         publicProcedure loginInputSchema resolver
           (VObject [(js ''username'', VString []),
                     (js ''password'', VString (js ''demo123''))]) = Inl (BAD_REQUEST errs)) \<and>
      appRouter_login
        (VObject [(js ''username'', VString []),
                  (js ''password'', VString (js ''demo123''))]) = Inl (BAD_REQUEST errs)) \<and>
   loginInputSchema
     (VObject [(js ''username'', VString (js ''demo'')),
               (js ''password'', VString (js ''demo123''))]) =
     Inr \<lparr>LoginInput.username = js ''demo'', password = js ''demo123''\<rparr> \<and>
   appRouter_login
     (VObject [(js ''username'', VString (js ''demo'')),
               (js ''password'', VString (js ''demo123''))]) =
     Inr (login \<lparr>LoginInput.username = js ''demo'', password = js ''demo123''\<rparr>)"
proof -
  let ?bad = "[(js ''username'', VString []), (js ''password'', VString (js ''demo123''))]"
  let ?good = "[(js ''username'', VString (js ''demo'')),
                (js ''password'', VString (js ''demo123''))]"
  have bad: "get ?bad (js ''username'') = VString []"
    by (simp add: get_def)
  have good:
    "get ?good (js ''username'') = VString (js ''demo'') \<and> js ''demo'' \<noteq> [] \<and>
     get ?good (js ''password'') = VString (js ''demo123'') \<and> js ''demo123'' \<noteq> []"
    by (simp add: get_def js_def)
  from bad good
    login_validation [where props = ?bad, THEN conjunct1]
    login_validation [where props = ?good and u = "js ''demo''" and p = "js ''demo123''",
      THEN conjunct2]
  show ?thesis by blast
qed

section \<open>Creating a user\<close>

subsection \<open>The placeholder id\<close>

lemma bit_length_0: "bit_length 0 = 0"
  by (subst bit_length.simps) simp

lemma bit_length_le: "n < 2 ^ k \<Longrightarrow> bit_length n \<le> k"
proof (induction k arbitrary: n)
  case 0
  then show ?case by (simp add: bit_length_0)
next
  case (Suc k)
  show ?case
  proof (cases "n = 0")
    case True
    then show ?thesis by (simp add: bit_length_0)
  next
    case False
    from Suc.prems have "n div 2 < 2 ^ k" by simp
    then have "bit_length (n div 2) \<le> k" by (rule Suc.IH)
    with False show ?thesis by (subst bit_length.simps) simp
  qed
qed

lemma bit_length_gt: "2 ^ k \<le> n \<Longrightarrow> k < bit_length n"
proof (induction k arbitrary: n)
  case 0
  then show ?case by (subst bit_length.simps) simp
next
  case (Suc k)
  then have "2 ^ k \<le> n div 2" by simp
  then have deeper: "k < bit_length (n div 2)" by (rule Suc.IH)
  have "0 < (2::nat) ^ Suc k" by simp
  with Suc.prems have "n \<noteq> 0" by linarith
  with deeper show ?case by (subst bit_length.simps) simp
qed

lemma bit_length_eq: "2 ^ k \<le> n \<Longrightarrow> n < 2 ^ Suc k \<Longrightarrow> bit_length n = Suc k"
  using bit_length_gt [of k n] bit_length_le [of n "Suc k"] by simp

text \<open>Rounding adds at most half a unit of the last place.\<close>

lemma round_half_even_upper: "2 * (round_half_even p s * 2 ^ s) \<le> 2 * p + 2 ^ s"
proof -
  define q where "q = p div 2 ^ s"
  define r where "r = p mod 2 ^ s"
  have p: "p = q * 2 ^ s + r"
    unfolding q_def r_def by (rule div_mult_mod_eq [symmetric])
  have "round_half_even p s = q \<or> (round_half_even p s = q + 1 \<and> 2 ^ s \<le> 2 * r)"
    by (auto simp: round_half_even_def Let_def q_def r_def)
  then show ?thesis
  proof
    assume "round_half_even p s = q"
    then show ?thesis by (simp add: p)
  next
    assume "round_half_even p s = q + 1 \<and> 2 ^ s \<le> 2 * r"
    then show ?thesis by (simp add: p algebra_simps)
  qed
qed

text \<open>
  The largest draw is \<open>1 - 2 ^ -53\<close>.  Its product with 1000 needs 63 bits, so at most
  10 bits are rounded away, and half a unit of the last place is less than the distance
  of the exact product from \<open>1000\<close>: the rounded product stays below \<open>1000\<close>.
\<close>

lemma floor_times_1000_upper:
  assumes "in_unit_interval d"
  shows "Math_floor (times_double d 1000) \<le> 999"
proof -
  define p where "p = significand d * 1000"
  define s where "s = bit_length p - 53"
  define q where "q = round_half_even p s"
  define k where "k = nat (- (exponent d + int s))"
  from assms have m: "significand d < 2 ^ 53" and e: "exponent d \<le> - 53"
    by (simp_all add: in_unit_interval_def)
  from m have "p < 2 ^ 63" by (simp add: p_def)
  then have "bit_length p \<le> 63" by (rule bit_length_le)
  then have s: "s \<le> 10" by (simp add: s_def)
  then have pow_s: "(2::nat) ^ s \<le> 2 ^ 10"
    by (intro power_increasing) simp_all
  from e s have neg: "exponent d + int s < 0" by simp
  from e s have ks: "53 \<le> k + s" by (simp add: k_def)
  have "2 * (q * 2 ^ s) \<le> 2 * p + 2 ^ s"
    unfolding q_def by (rule round_half_even_upper)
  also from m pow_s have "\<dots> < 2 * (1000 * 2 ^ 53)" by (simp add: p_def)
  finally have "q * 2 ^ s < 1000 * 2 ^ 53" by simp
  also have "(1000::nat) * 2 ^ 53 \<le> 1000 * 2 ^ (k + s)"
  proof -
    from ks have "(2::nat) ^ 53 \<le> 2 ^ (k + s)"
      by (intro power_increasing) simp_all
    then show ?thesis by (rule mult_le_mono2)
  qed
  finally have "q * 2 ^ s < (1000 * 2 ^ k) * 2 ^ s" by (simp add: power_add)
  then have "q < 1000 * 2 ^ k" by simp
  then have "q div 2 ^ k < 1000"
    by (simp add: less_mult_imp_div_less)
  moreover have "Math_floor (times_double d 1000) = int (q div 2 ^ k)"
    using neg by (simp add: Math_floor_def times_double_def Let_def p_def s_def q_def k_def)
  ultimately show ?thesis by simp
qed

lemma floor_times_lower: "0 \<le> Math_floor (times_double d k)"
  by (simp add: Math_floor_def)

text \<open>Both ends of the range are reached: by the draw 0 and by the largest draw.\<close>

lemma createUser_id_at_smallest_draw:
  "User.id (createUser \<lparr>significand = 0, exponent = - 1074\<rparr> now input) = 0"
  by (simp add: createUser_def Math_floor_def times_double_def round_half_even_def
      bit_length_0)

lemma createUser_id_at_largest_draw:
  "User.id (createUser \<lparr>significand = 2 ^ 53 - 1, exponent = - 53\<rparr> now input) = 999"
proof -
  have "bit_length 9007199254740991000 = Suc 62"
    by (rule bit_length_eq) simp_all
  then show ?thesis
    by (simp add: createUser_def Math_floor_def times_double_def round_half_even_def)
qed

text \<open>
  Claim C10.  For every input, the user that \<open>createUser\<close> returns has the fixed string
  "$2b$10$placeholder_hash" as its password hash, whatever the input's password is, and
  its id is an integer from 0 to 999.
\<close>

theorem createUser_placeholder_hash_and_id_range:
  assumes "in_unit_interval random"
  shows "password_hash (createUser random now input) = js ''$2b$10$placeholder_hash'' \<and>
         0 \<le> User.id (createUser random now input) \<and>
         User.id (createUser random now input) \<le> 999"
  using floor_times_1000_upper [OF assms]
  by (simp add: createUser_def floor_times_lower)

theorem createUser_placeholder_hash_and_id_range_witness:
  "in_unit_interval \<lparr>significand = 2 ^ 52, exponent = - 53\<rparr> \<and>
   password_hash
     (createUser \<lparr>significand = 2 ^ 52, exponent = - 53\<rparr> 0
        \<lparr>CreateUserInput.username = js ''bob'', password = js ''secret1''\<rparr>) =
     js ''$2b$10$placeholder_hash'' \<and>
   0 \<le> User.id
     (createUser \<lparr>significand = 2 ^ 52, exponent = - 53\<rparr> 0
        \<lparr>CreateUserInput.username = js ''bob'', password = js ''secret1''\<rparr>) \<and>
   User.id
     (createUser \<lparr>significand = 2 ^ 52, exponent = - 53\<rparr> 0
        \<lparr>CreateUserInput.username = js ''bob'', password = js ''secret1''\<rparr>) \<le> 999"
proof -
  have draw: "in_unit_interval \<lparr>significand = 2 ^ 52, exponent = - 53\<rparr>"
    by (simp add: in_unit_interval_def)
  from draw createUser_placeholder_hash_and_id_range [OF draw]
  show ?thesis by blast
qed

subsection \<open>The placeholder hash and the plain password\<close>

text \<open>
  Claim C3, as stated: for every valid input the returned user has the input's username
  and a password hash that differs from the input's password.  The hash is a fixed
  string of 23 characters, which the schema accepts as a password: for that password the
  hash is the plain password.
\<close>

theorem createUser_hash_is_password_counterexample:
  "createUserInputSchema
     (VObject [(js ''username'', VString (js ''bob'')),
               (js ''password'', VString (js ''$2b$10$placeholder_hash''))]) =
     Inr \<lparr>CreateUserInput.username = js ''bob'', password = js ''$2b$10$placeholder_hash''\<rparr> \<and>
   password_hash
     (createUser \<lparr>significand = 2 ^ 52, exponent = - 53\<rparr> 0
        \<lparr>CreateUserInput.username = js ''bob'', password = js ''$2b$10$placeholder_hash''\<rparr>) =
     CreateUserInput.password
       \<lparr>CreateUserInput.username = js ''bob'', password = js ''$2b$10$placeholder_hash''\<rparr>"
  by (simp add: createUserInputSchema_def z_object2_def z_string_min_def get_def js_def
      createUser_def)

text \<open>
  Claim C3, amended.  For every valid input (a non-empty username, a password of at
  least 6 code units) \<open>createUser\<close> returns a user with the input's username, and the
  returned password hash differs from the input's password exactly when that password
  is not the placeholder string "$2b$10$placeholder_hash".
\<close>

theorem createUser_username_and_hash:
  assumes "CreateUserInput.username input \<noteq> []"
    and "6 \<le> length (CreateUserInput.password input)"
  shows "User.username (createUser random now input) = CreateUserInput.username input \<and>
         (password_hash (createUser random now input) \<noteq> CreateUserInput.password input) =
           (CreateUserInput.password input \<noteq> js ''$2b$10$placeholder_hash'')"
  by (auto simp: createUser_def)

theorem createUser_username_and_hash_witness:
  "User.username
     (createUser \<lparr>significand = 2 ^ 52, exponent = - 53\<rparr> 0
        \<lparr>CreateUserInput.username = js ''bob'', password = js ''secret1''\<rparr>) = js ''bob'' \<and>
   password_hash
     (createUser \<lparr>significand = 2 ^ 52, exponent = - 53\<rparr> 0
        \<lparr>CreateUserInput.username = js ''bob'', password = js ''secret1''\<rparr>) \<noteq> js ''secret1''"
proof -
  let ?input = "\<lparr>CreateUserInput.username = js ''bob'', password = js ''secret1''\<rparr>"
  have valid: "CreateUserInput.username ?input \<noteq> []" "6 \<le> length (CreateUserInput.password ?input)"
    by (simp_all add: js_def)
  have other: "CreateUserInput.password ?input \<noteq> js ''$2b$10$placeholder_hash''"
    by (simp add: js_def)
  from other createUser_username_and_hash [OF valid, of "\<lparr>significand = 2 ^ 52, exponent = - 53\<rparr>" 0]
  show ?thesis by simp
qed

section \<open>The health check\<close>

text \<open>
  Whatever the clock reads, the health check answers with the status "ok" and the
  rendering of that reading.
\<close>

lemma healthcheck_status:
  "status (appRouter_healthcheck toISOString now) = js ''ok'' \<and>
   timestamp (appRouter_healthcheck toISOString now) = toISOString now"
  by (simp add: appRouter_healthcheck_def)

end
